theory Spec2Isabelle
  imports Complex_Main
begin

section \<open>The music playback connection (src/services/Music.ts)\<close>

text \<open>
  The class \<open>MusicConnection\<close> is event driven: its methods, the handlers it registers on
  the voice connection, the callback it passes to the speech synthesiser and the functions
  it hands to \<open>setTimeout\<close> all run to completion, one after the other, on one thread.
  The embedding therefore has one state record and one state transformer per method,
  handler and callback.  Where a method suspends at an \<open>await\<close>, its first part and its
  continuation are two transformers and the suspended call is kept in the state, so that
  other events can be placed between them.

  Numbers are JavaScript doubles in the source and exact reals here.
\<close>

subsection \<open>Data\<close>

record MusicQueueItem =
  title :: string
  platform :: string

text \<open>What the voice connection is asked to play: the synthesised announcement of a text,
  or the stream of an item, started at an offset when \<open>seek\<close> passes \<open>-ss\<close>.\<close>

datatype stream = Announcement string | ItemStream MusicQueueItem "real option"

text \<open>
  The voice connection is the library's object, not code of this repository.  The part of
  it that the class reads and writes is kept: whether a stream is playing, whether it is
  paused, the inline volume, the stream being played and the channel; and the library's
  own flag \<open>ended\<close>, which decides whether \<open>stopPlaying\<close> emits \<open>end\<close>.
\<close>

record VoiceConnection =
  vc_playing :: bool
  vc_ended :: bool
  vc_paused :: bool
  vc_volume :: real
  vc_source :: "stream option"
  vc_channel :: string

datatype error = Error string | TypeError string

text \<open>The three functions the class passes to \<open>setTimeout\<close>: one step of a fade (with the
  sample it captured), the ducking function of \<open>speakingStart\<close> and the restoring function
  of \<open>speakingStop\<close>.\<close>

datatype callback = FadeStep real | DuckFunc | RestoreFunc

type_synonym timer = "nat \<times> nat \<times> callback"

text \<open>
  The fields of the class come first (\<open>musicQueueCache.current\<close> and
  \<open>musicQueueCache.queue\<close> are \<open>current\<close> and \<open>queue\<close>; an entry of the queue may be
  \<open>null\<close>, which \<open>rewind\<close> can put there).  \<open>doneCallback\<close> is a closure whose code is
  always the same and which captures the item \<open>next\<close>: it is represented by that item.
  The remaining fields are the event loop: the clock in milliseconds, the pending timers
  as (handle, due time, function) in the order they were set, the synthesis requests whose
  callback has not run yet, the \<open>doneCallback\<close> bodies and the \<open>seek\<close> calls suspended at
  \<open>await getStream()\<close>, and the exceptions nobody caught.
\<close>

record MusicConnection =
  current :: "MusicQueueItem option"
  queue :: "MusicQueueItem option list"
  voiceChannel :: "string option"
  connection :: "VoiceConnection option"
  volume :: real
  doPlayNext :: bool
  speaking :: "string set"
  doneCallback :: "MusicQueueItem option"
  startSpeakingTimeout :: "nat option"
  stopSpeakingTimeout :: "nat option"
  fadeTimeouts :: "nat list"
  now :: nat
  nextHandle :: nat
  timers :: "timer list"
  synthRequests :: "MusicQueueItem list"
  streamRequests :: "MusicQueueItem list"
  seekRequests :: "(MusicQueueItem \<times> real) list"
  uncaught :: "error list"

definition VOL_FADE_TIME :: real where
  "VOL_FADE_TIME = 1.5"

text \<open>The number of iterations of \<open>for (let i = 0; i < VOL_FADE_TIME * 10; i++)\<close>.\<close>

definition fadeSteps :: nat where
  "fadeSteps = nat \<lceil>VOL_FADE_TIME * 10\<rceil>"

subsection \<open>Exceptions and timers\<close>

definition throw :: "error \<Rightarrow> MusicConnection \<Rightarrow> MusicConnection" where
  "throw e s = s\<lparr>uncaught := uncaught s @ [e]\<rparr>"

definition setTimeout :: "callback \<Rightarrow> nat \<Rightarrow> MusicConnection \<Rightarrow> nat \<times> MusicConnection" where
  "setTimeout cb delay s =
     (nextHandle s,
      s\<lparr>timers := timers s @ [(nextHandle s, now s + delay, cb)],
        nextHandle := Suc (nextHandle s)\<rparr>)"

definition clearTimeout :: "nat \<Rightarrow> MusicConnection \<Rightarrow> MusicConnection" where
  "clearTimeout h s = s\<lparr>timers := filter (\<lambda>t. fst t \<noteq> h) (timers s)\<rparr>"

subsection \<open>The voice connection\<close>

text \<open>
  Modelled from the spec: the transport primitives \<open>play\<close>, \<open>stop\<close>, \<open>setVolume\<close>,
  \<open>getVolume\<close>, \<open>switch\<close> and the \<open>streamEnded\<close> event, which belong to the voice
  library and not to the repository.  \<open>play\<close> starts the stream and clears \<open>ended\<close>
  when none is playing, and otherwise only reports an error to the \<open>error\<close> listener,
  which logs it.  \<open>stop\<close> (\<open>stopPlaying\<close>, defined further down because it runs the
  \<open>end\<close> listener) returns at once when \<open>ended\<close> is set; otherwise it sets \<open>ended\<close>,
  stops the stream and emits \<open>end\<close> before it returns.  \<open>ended\<close> is not set on a
  connection just joined, so the first stop of a connection that never played emits
  \<open>end\<close> too.  The class relies on the notification coming from inside the stop:
  \<open>seek\<close> and \<open>playNext\<close> clear \<open>doPlayNext\<close> just before they stop the stream, so that
  the listener run by the stop does not advance.  A connection just joined plays nothing,
  at volume 1.
\<close>

definition vcPlay :: "stream \<Rightarrow> VoiceConnection \<Rightarrow> VoiceConnection" where
  "vcPlay src c =
     (if vc_playing c then c
      else c\<lparr>vc_playing := True, vc_ended := False, vc_source := Some src\<rparr>)"

definition vcStop :: "VoiceConnection \<Rightarrow> VoiceConnection" where
  "vcStop c = c\<lparr>vc_playing := False, vc_ended := True, vc_source := None\<rparr>"

definition newConnection :: "string \<Rightarrow> VoiceConnection" where
  "newConnection ch =
     \<lparr>vc_playing = False, vc_ended = False, vc_paused = False, vc_volume = 1,
      vc_source = None, vc_channel = ch\<rparr>"

subsection \<open>Fading\<close>

definition cancelFadeVolume :: "MusicConnection \<Rightarrow> MusicConnection" where
  "cancelFadeVolume s =
     (fold clearTimeout (fadeTimeouts s) s)\<lparr>fadeTimeouts := []\<rparr>"

definition clampVol :: "real \<Rightarrow> real" where
  "clampVol x = max 0 (min x 2)"

text \<open>One iteration of the loop of \<open>fadeVolumeTo\<close>.\<close>

definition fadeIter :: "real \<Rightarrow> real \<Rightarrow> nat \<Rightarrow> MusicConnection \<Rightarrow> MusicConnection" where
  "fadeIter startVol step i s =
     (let newVol = clampVol (startVol + real i * step);
          (h, s') = setTimeout (FadeStep newVol) (i * 100) s
      in s'\<lparr>fadeTimeouts := fadeTimeouts s' @ [h]\<rparr>)"

definition fadeVolumeTo :: "real \<Rightarrow> MusicConnection \<Rightarrow> MusicConnection" where
  "fadeVolumeTo newVolume s =
     (let s1 = cancelFadeVolume s in
      case connection s1 of
        None \<Rightarrow> throw (TypeError ''Cannot read property volume of null'') s1
      | Some c \<Rightarrow>
          let startVol = vc_volume c;
              diff = newVolume - startVol;
              step = diff / (VOL_FADE_TIME * 10)
          in fold (fadeIter startVol step) [0..<fadeSteps] s1)"

definition setVolume :: "real \<Rightarrow> MusicConnection \<Rightarrow> MusicConnection" where
  "setVolume v s =
     (case connection s of
        None \<Rightarrow> s
      | Some c \<Rightarrow> fadeVolumeTo v (s\<lparr>volume := v\<rparr>))"

subsection \<open>Sequencing\<close>

text \<open>
  \<open>playNext\<close>, the library's \<open>stopPlaying\<close> and the \<open>end\<close> listener call each other:
  \<open>playNext\<close> stops a playing stream, stopping emits \<open>end\<close>, and the listener calls
  \<open>playNext\<close> when \<open>doPlayNext\<close> is set.  The calls end because \<open>playNext\<close> stops only
  a playing stream and nothing is playing after a stop.  Calling \<open>doneCallback\<close> runs the closure up to its
  \<open>await next.getStream()\<close>, where it is suspended; \<open>synthesizeSpeech\<close> only files the
  request, its callback runs later.
\<close>

definition callDone :: "MusicQueueItem \<Rightarrow> MusicConnection \<Rightarrow> MusicConnection" where
  "callDone it s = s\<lparr>streamRequests := streamRequests s @ [it]\<rparr>"

definition synthesizeSpeech :: "MusicQueueItem \<Rightarrow> MusicConnection \<Rightarrow> MusicConnection" where
  "synthesizeSpeech it s = s\<lparr>synthRequests := synthRequests s @ [it]\<rparr>"

definition isPlaying :: "MusicConnection \<Rightarrow> bool" where
  "isPlaying s = (case connection s of None \<Rightarrow> False | Some c \<Rightarrow> vc_playing c)"

function playNext :: "MusicConnection \<Rightarrow> MusicConnection"
  and stopPlaying :: "MusicConnection \<Rightarrow> MusicConnection"
  and onEnd :: "MusicConnection \<Rightarrow> MusicConnection" where
  "playNext s =
     (case queue s of
        [] \<Rightarrow> s
      | nxt # rest \<Rightarrow>
          (case nxt of
             None \<Rightarrow> s\<lparr>queue := rest\<rparr>
           | Some it \<Rightarrow>
               (case connection s of
                  None \<Rightarrow> throw (TypeError ''Cannot read property playing of null'') (s\<lparr>queue := rest\<rparr>)
                | Some c \<Rightarrow>
                    synthesizeSpeech it
                      (if vc_playing c then stopPlaying (s\<lparr>queue := rest, doPlayNext := False\<rparr>)
                       else s\<lparr>queue := rest\<rparr>))))"
| "stopPlaying s =
     (case connection s of
        None \<Rightarrow> throw (TypeError ''Cannot read property stopPlaying of null'') s
      | Some c \<Rightarrow>
          if vc_ended c then s else onEnd (s\<lparr>connection := Some (vcStop c)\<rparr>))"
| "onEnd s =
     (let s1 = s\<lparr>current := None\<rparr>;
          s2 = (case doneCallback s1 of
                  None \<Rightarrow> s1
                | Some it \<Rightarrow> (callDone it s1)\<lparr>doneCallback := None\<rparr>)
      in if doPlayNext s2 then playNext s2 else s2)"
  by pat_completeness auto
termination
  by (relation "measure (\<lambda>x. case x of
        Inl s \<Rightarrow> (if isPlaying s then 3 else 0)
      | Inr (Inl s) \<Rightarrow> 2
      | Inr (Inr s) \<Rightarrow> (if isPlaying s then 4 else 1))")
     (auto simp: isPlaying_def vcStop_def callDone_def split: option.splits)


text \<open>The natural end of the stream that is playing: the library calls its own
  \<open>stopPlaying\<close> when the stream is exhausted.\<close>

definition streamEnd :: "MusicConnection \<Rightarrow> MusicConnection" where
  "streamEnd s = (case connection s of None \<Rightarrow> s | Some c \<Rightarrow> stopPlaying s)"

text \<open>
  The callback passed to \<open>synthesizeSpeech\<close>, for the request that captured \<open>nxt\<close>;
  \<open>ok\<close> is false when the service reports an error.  The error branch calls
  \<open>this.doneCallback\<close> as it is at that moment and does not clear it.
\<close>

definition synthCallback :: "MusicQueueItem \<Rightarrow> bool \<Rightarrow> MusicConnection \<Rightarrow> MusicConnection" where
  "synthCallback nxt ok s =
     (if \<not> ok then
        (case doneCallback s of
           None \<Rightarrow> throw (TypeError ''this.doneCallback is not a function'') s
         | Some it \<Rightarrow> callDone it s)
      else
        (let s1 = s\<lparr>doneCallback := Some nxt\<rparr> in
         case connection s1 of
           None \<Rightarrow> throw (TypeError ''Cannot read property play of null'') s1
         | Some c \<Rightarrow>
             s1\<lparr>connection := Some (vcPlay (Announcement (''Now playing: '' @ title nxt)) c)\<rparr>))"

text \<open>The body of \<open>doneCallback\<close> after its \<open>await next.getStream()\<close>; \<open>ok\<close> is false
  when the promise is rejected, which ends the body there.\<close>

definition doneBody :: "MusicQueueItem \<Rightarrow> bool \<Rightarrow> MusicConnection \<Rightarrow> MusicConnection" where
  "doneBody nxt ok s =
     (if \<not> ok then throw (Error ''getStream failed'') s
      else
        (let s1 = s\<lparr>current := Some nxt\<rparr> in
         case connection s1 of
           None \<Rightarrow> throw (TypeError ''Cannot read property play of null'') s1
         | Some c \<Rightarrow>
             s1\<lparr>connection := Some (vcPlay (ItemStream nxt None) c), doPlayNext := True\<rparr>))"

text \<open>The events of the loop that run these two: the \<open>i\<close>-th outstanding request is
  answered.\<close>

definition dropAt :: "nat \<Rightarrow> 'a list \<Rightarrow> 'a list" where
  "dropAt i xs = take i xs @ drop (Suc i) xs"

definition synthDone :: "nat \<Rightarrow> bool \<Rightarrow> MusicConnection \<Rightarrow> MusicConnection" where
  "synthDone i ok s =
     (if i < length (synthRequests s)
      then synthCallback (synthRequests s ! i) ok (s\<lparr>synthRequests := dropAt i (synthRequests s)\<rparr>)
      else s)"

definition streamReady :: "nat \<Rightarrow> bool \<Rightarrow> MusicConnection \<Rightarrow> MusicConnection" where
  "streamReady i ok s =
     (if i < length (streamRequests s)
      then doneBody (streamRequests s ! i) ok (s\<lparr>streamRequests := dropAt i (streamRequests s)\<rparr>)
      else s)"

subsection \<open>The public methods\<close>

definition isConnected :: "MusicConnection \<Rightarrow> bool" where
  "isConnected s = (connection s \<noteq> None)"

definition switchChannel :: "string \<Rightarrow> MusicConnection \<Rightarrow> MusicConnection" where
  "switchChannel ch s =
     (let s1 = s\<lparr>voiceChannel := Some ch\<rparr> in
      case connection s1 of
        None \<Rightarrow> throw (TypeError ''Cannot read property switchChannel of null'') s1
      | Some c \<Rightarrow> s1\<lparr>connection := Some (c\<lparr>vc_channel := ch\<rparr>)\<rparr>)"

text \<open>\<open>connect\<close> awaits \<open>channel.join\<close>; the join is taken to succeed at once and to give
  a connection that plays nothing.\<close>

definition connect :: "string \<Rightarrow> MusicConnection \<Rightarrow> MusicConnection" where
  "connect ch s =
     (case connection s of
        Some c \<Rightarrow> switchChannel ch s
      | None \<Rightarrow> s\<lparr>voiceChannel := Some ch, connection := Some (newConnection ch)\<rparr>)"

text \<open>
  \<open>play\<close> and \<open>rewind\<close> throw to their caller.  Their result is \<open>Inl\<close> with the error
  and the state at the throw, or \<open>Inr\<close> with the state at the return.
\<close>

type_synonym outcome = "(error \<times> MusicConnection) + MusicConnection"

definition after :: "outcome \<Rightarrow> MusicConnection" where
  "after r = (case r of Inl (e, s) \<Rightarrow> s | Inr s \<Rightarrow> s)"

definition play :: "MusicQueueItem \<Rightarrow> string option \<Rightarrow> MusicConnection \<Rightarrow> outcome" where
  "play item vch s =
     (case
        (case vch of
           Some ch \<Rightarrow> Inr (connect ch s)
         | None \<Rightarrow>
             (case connection s of
                Some c \<Rightarrow> Inr s
              | None \<Rightarrow>
                  (case voiceChannel s of
                     Some ch \<Rightarrow> Inr (connect ch s)
                   | None \<Rightarrow> Inl (Error ''Not connected and no voice channel specified'', s))))
      of
        Inl e \<Rightarrow> Inl e
      | Inr s1 \<Rightarrow>
          (let s2 = s1\<lparr>queue := queue s1 @ [Some item]\<rparr>
           in Inr (if current s2 = None then playNext s2 else s2)))"

definition pause :: "MusicConnection \<Rightarrow> MusicConnection" where
  "pause s =
     (case connection s of
        None \<Rightarrow> s
      | Some c \<Rightarrow> s\<lparr>connection := Some (c\<lparr>vc_paused := True\<rparr>)\<rparr>)"

definition resume :: "MusicConnection \<Rightarrow> MusicConnection" where
  "resume s =
     (case connection s of
        None \<Rightarrow> s
      | Some c \<Rightarrow> s\<lparr>connection := Some (c\<lparr>vc_paused := False\<rparr>)\<rparr>)"

definition rewind :: "MusicConnection \<Rightarrow> outcome" where
  "rewind s =
     (case
        (case connection s of
           Some c \<Rightarrow> Inr s
         | None \<Rightarrow>
             (case voiceChannel s of
                Some ch \<Rightarrow> Inr (connect ch s)
              | None \<Rightarrow> Inl (Error ''Not connected to a voice channel'', s)))
      of
        Inl e \<Rightarrow> Inl e
      | Inr s1 \<Rightarrow> Inr (playNext (s1\<lparr>queue := current s1 # queue s1\<rparr>)))"

definition skip :: "MusicConnection \<Rightarrow> MusicConnection" where
  "skip s = (case connection s of None \<Rightarrow> s | Some c \<Rightarrow> playNext s)"

text \<open>\<open>seek\<close> up to its \<open>await current.getStream()\<close>, and its body after it.  The item
  read into the local \<open>current\<close> stays with the suspended call.\<close>

definition seek :: "real \<Rightarrow> MusicConnection \<Rightarrow> MusicConnection" where
  "seek time s =
     (let s1 = s\<lparr>doPlayNext := False\<rparr> in
      case current s1 of
        None \<Rightarrow> throw (TypeError ''Cannot read property getStream of null'') s1
      | Some cur \<Rightarrow> s1\<lparr>seekRequests := seekRequests s1 @ [(cur, time)]\<rparr>)"

definition seekBody :: "MusicQueueItem \<Rightarrow> real \<Rightarrow> bool \<Rightarrow> MusicConnection \<Rightarrow> MusicConnection" where
  "seekBody cur time ok s =
     (if \<not> ok then throw (Error ''getStream failed'') s
      else
        (case connection s of
           None \<Rightarrow> throw (TypeError ''Cannot read property stopPlaying of null'') s
         | Some c0 \<Rightarrow>
             (let s1 = stopPlaying s in
              case connection s1 of
                None \<Rightarrow> throw (TypeError ''Cannot read property play of null'') s1
              | Some c \<Rightarrow>
                  s1\<lparr>connection := Some (vcPlay (ItemStream cur (Some time)) c),
                     current := Some cur, doPlayNext := True\<rparr>)))"

definition seekReady :: "nat \<Rightarrow> bool \<Rightarrow> MusicConnection \<Rightarrow> MusicConnection" where
  "seekReady i ok s =
     (if i < length (seekRequests s)
      then seekBody (fst (seekRequests s ! i)) (snd (seekRequests s ! i)) ok
             (s\<lparr>seekRequests := dropAt i (seekRequests s)\<rparr>)
      else s)"

text \<open>\<open>voiceChannel.leave()\<close> changes none of the fields kept here.\<close>

definition disconnect :: "MusicConnection \<Rightarrow> MusicConnection" where
  "disconnect s =
     (case connection s of
        None \<Rightarrow> s
      | Some c \<Rightarrow> (stopPlaying s)\<lparr>connection := None\<rparr>)"

subsection \<open>The speaking listeners\<close>

definition speakingStart :: "string \<Rightarrow> MusicConnection \<Rightarrow> MusicConnection" where
  "speakingStart userId s =
     (let s1 =
        (if speaking s = {} then
           (case stopSpeakingTimeout s of
              Some h \<Rightarrow> (clearTimeout h s)\<lparr>stopSpeakingTimeout := None\<rparr>
            | None \<Rightarrow>
                (let (h, s') = setTimeout DuckFunc 500 (cancelFadeVolume s)
                 in s'\<lparr>startSpeakingTimeout := Some h\<rparr>))
         else s)
      in s1\<lparr>speaking := insert userId (speaking s1)\<rparr>)"

definition speakingStop :: "string \<Rightarrow> MusicConnection \<Rightarrow> MusicConnection" where
  "speakingStop userId s =
     (let s1 = s\<lparr>speaking := speaking s - {userId}\<rparr> in
      if speaking s1 = {} then
        (let s2 = (case startSpeakingTimeout s1 of
                     Some h \<Rightarrow> (clearTimeout h s1)\<lparr>startSpeakingTimeout := None\<rparr>
                   | None \<Rightarrow> s1);
             (h, s3) = setTimeout RestoreFunc 1000 s2
         in s3\<lparr>stopSpeakingTimeout := Some h\<rparr>)
      else s1)"

subsection \<open>Running the timers\<close>

text \<open>What each function passed to \<open>setTimeout\<close> does when its timer fires.\<close>

definition fire :: "callback \<Rightarrow> MusicConnection \<Rightarrow> MusicConnection" where
  "fire cb s =
     (case cb of
        FadeStep newVol \<Rightarrow>
          (case connection s of
             None \<Rightarrow> throw (TypeError ''Cannot read property setVolume of null'') s
           | Some c \<Rightarrow> s\<lparr>connection := Some (c\<lparr>vc_volume := newVol\<rparr>)\<rparr>)
      | DuckFunc \<Rightarrow>
          (case connection s of
             None \<Rightarrow> throw (TypeError ''Cannot read property setVolume of null'') s
           | Some c \<Rightarrow>
               s\<lparr>connection := Some (c\<lparr>vc_volume := 0.2 * volume s\<rparr>),
                 startSpeakingTimeout := None\<rparr>)
      | RestoreFunc \<Rightarrow> fadeVolumeTo (volume s) (s\<lparr>stopSpeakingTimeout := None\<rparr>))"

text \<open>The pending timer that fires first: the least due time, and among equal due times
  the one set first.\<close>

fun earliest :: "timer list \<Rightarrow> timer option" where
  "earliest [] = None"
| "earliest (t # ts) =
     (case earliest ts of
        None \<Rightarrow> Some t
      | Some u \<Rightarrow> if fst (snd u) < fst (snd t) then Some u else Some t)"

text \<open>
  \<open>runTimers limit\<close> fires the pending timers that are due by \<open>limit\<close>, each at its due
  time and in the order above, and then sets the clock to \<open>limit\<close>.  A restoring function
  sets the timers of a new fade, so the recursion is not on the number of timers; it ends
  because a restoring function stands for the sixteen firings it can cause.
\<close>

fun weight :: "timer \<Rightarrow> nat" where
  "weight (h, due, RestoreFunc) = 16"
| "weight (h, due, cb) = 1"

definition pendingWork :: "MusicConnection \<Rightarrow> nat" where
  "pendingWork s = sum_list (map weight (timers s))"

lemma fadeSteps_15: "fadeSteps = 15"
  by (simp add: fadeSteps_def VOL_FADE_TIME_def)

lemma earliest_in: "earliest ts = Some t \<Longrightarrow> t \<in> set ts"
  by (induction ts arbitrary: t) (auto split: option.splits if_splits)

lemma weight_filter_le: "sum_list (map weight (filter P ts)) \<le> sum_list (map weight ts)"
  by (induction ts) auto

lemma weight_remove:
  "t \<in> set ts \<Longrightarrow> sum_list (map weight (filter (\<lambda>u. fst u \<noteq> fst t) ts)) + weight t \<le> sum_list (map weight ts)"
proof (induction ts)
  case Nil then show ?case by simp
next
  case (Cons a ts)
  show ?case
  proof (cases "fst a = fst t")
    case True
    have "sum_list (map weight (filter (\<lambda>u. fst u \<noteq> fst t) ts)) \<le> sum_list (map weight ts)"
      by (rule weight_filter_le)
    then show ?thesis using Cons True
      by (cases "a = t") auto
  next
    case False
    then have "t \<in> set ts" using Cons.prems by auto
    from Cons.IH[OF this] False show ?thesis by simp
  qed
qed

lemma pendingWork_clearTimeout: "pendingWork (clearTimeout h s) \<le> pendingWork s"
  by (simp add: pendingWork_def clearTimeout_def weight_filter_le)

lemma pendingWork_fold_clear: "pendingWork (fold clearTimeout hs s) \<le> pendingWork s"
proof (induction hs arbitrary: s)
  case Nil then show ?case by simp
next
  case (Cons h hs)
  have "pendingWork (fold clearTimeout hs (clearTimeout h s)) \<le> pendingWork (clearTimeout h s)"
    by (rule Cons.IH)
  also have "\<dots> \<le> pendingWork s" by (rule pendingWork_clearTimeout)
  finally show ?case by simp
qed

lemma pendingWork_cancelFade: "pendingWork (cancelFadeVolume s) \<le> pendingWork s"
  using pendingWork_fold_clear[of "fadeTimeouts s" s]
  by (simp add: cancelFadeVolume_def pendingWork_def)

lemma pendingWork_fadeIter: "pendingWork (fadeIter a b i s) = pendingWork s + 1"
  by (simp add: fadeIter_def setTimeout_def pendingWork_def Let_def)

lemma pendingWork_fold_fadeIter: "pendingWork (fold (fadeIter a b) xs s) = pendingWork s + length xs"
  by (induction xs arbitrary: s) (simp_all add: pendingWork_fadeIter)

lemma pendingWork_fadeVolumeTo: "pendingWork (fadeVolumeTo v s) \<le> pendingWork s + 15"
proof (cases "connection (cancelFadeVolume s)")
  case None
  then show ?thesis using pendingWork_cancelFade[of s]
    by (simp add: fadeVolumeTo_def throw_def pendingWork_def Let_def)
next
  case (Some c)
  then show ?thesis using pendingWork_cancelFade[of s]
    by (simp add: fadeVolumeTo_def Let_def pendingWork_fold_fadeIter fadeSteps_15)
qed

lemma pendingWork_fire: "pendingWork (fire cb s) < pendingWork s + weight (h, d, cb)"
proof (cases cb)
  case (FadeStep v)
  then show ?thesis by (simp add: fire_def throw_def pendingWork_def split: option.splits)
next
  case DuckFunc
  then show ?thesis by (simp add: fire_def throw_def pendingWork_def split: option.splits)
next
  case RestoreFunc
  have "pendingWork (fadeVolumeTo (volume s) (s\<lparr>stopSpeakingTimeout := None\<rparr>)) \<le> pendingWork (s\<lparr>stopSpeakingTimeout := None\<rparr>) + 15"
    by (rule pendingWork_fadeVolumeTo)
  then show ?thesis using RestoreFunc by (simp add: fire_def pendingWork_def)
qed

function runTimers :: "nat \<Rightarrow> MusicConnection \<Rightarrow> MusicConnection" where
  "runTimers limit s =
     (case earliest (timers s) of
        None \<Rightarrow> s\<lparr>now := max limit (now s)\<rparr>
      | Some t \<Rightarrow>
          if fst (snd t) \<le> limit
          then runTimers limit
                 (fire (snd (snd t))
                    (s\<lparr>timers := filter (\<lambda>u. fst u \<noteq> fst t) (timers s),
                       now := max (fst (snd t)) (now s)\<rparr>))
          else s\<lparr>now := max limit (now s)\<rparr>)"
  by pat_completeness auto
termination
proof (relation "measure (\<lambda>(limit, s). pendingWork s)")
  show "wf (measure (\<lambda>(limit, s). pendingWork s))" by simp
next
  fix limit :: nat and s :: MusicConnection and t :: timer
  assume e: "earliest (timers s) = Some t"
  let ?s' = "s\<lparr>timers := filter (\<lambda>u. fst u \<noteq> fst t) (timers s), now := max (fst (snd t)) (now s)\<rparr>"
  have "pendingWork (fire (snd (snd t)) ?s') < pendingWork ?s' + weight (fst t, fst (snd t), snd (snd t))"
    by (rule pendingWork_fire)
  moreover have "pendingWork ?s' + weight t \<le> pendingWork s"
    using weight_remove[OF earliest_in[OF e]] by (simp add: pendingWork_def)
  ultimately show "((limit, fire (snd (snd t)) ?s'), (limit, s)) \<in> measure (\<lambda>(limit, s). pendingWork s)"
    by simp
qed

text \<open>The clock moves on by \<open>dt\<close> milliseconds with no other event.\<close>

definition advance :: "nat \<Rightarrow> MusicConnection \<Rightarrow> MusicConnection" where
  "advance dt s = runTimers (now s + dt) s"


subsection \<open>Example states\<close>

definition songA :: MusicQueueItem where
  "songA = \<lparr>title = ''Song1'', platform = ''youtube''\<rparr>"

definition songB :: MusicQueueItem where
  "songB = \<lparr>title = ''Song2'', platform = ''youtube''\<rparr>"

definition songC :: MusicQueueItem where
  "songC = \<lparr>title = ''Song3'', platform = ''youtube''\<rparr>"

text \<open>A connection object as the constructor leaves it, with an empty queue cache.\<close>

definition fresh :: MusicConnection where
  "fresh =
     \<lparr>current = None, queue = [], voiceChannel = None, connection = None,
      volume = 1, doPlayNext = True, speaking = {}, doneCallback = None,
      startSpeakingTimeout = None, stopSpeakingTimeout = None, fadeTimeouts = [],
      now = 0, nextHandle = 0, timers = [],
      synthRequests = [], streamRequests = [], seekRequests = [], uncaught = []\<rparr>"

text \<open>The same after \<open>connect\<close>, and with \<open>songA\<close> playing as the current item.\<close>

definition idle :: MusicConnection where
  "idle = connect ''general'' fresh"

definition playingA :: MusicConnection where
  "playingA =
     idle\<lparr>current := Some songA,
          connection := Some (vcPlay (ItemStream songA None) (newConnection ''general''))\<rparr>"

section \<open>Properties\<close>

subsection \<open>Timers and fades in closed form\<close>

lemma fold_clearTimeout:
  "fold clearTimeout hs s = s\<lparr>timers := filter (\<lambda>t. fst t \<notin> set hs) (timers s)\<rparr>"
proof (induction hs arbitrary: s)
  case Nil
  then show ?case by simp
next
  case (Cons h hs)
  have "filter (\<lambda>t. fst t \<notin> set hs) (filter (\<lambda>t. fst t \<noteq> h) (timers s)) =
        filter (\<lambda>t. fst t \<notin> set (h # hs)) (timers s)"
    by (induction "timers s") auto
  with Cons show ?case by (simp add: clearTimeout_def)
qed

lemma cancelFadeVolume_eq:
  "cancelFadeVolume s =
     s\<lparr>timers := filter (\<lambda>t. fst t \<notin> set (fadeTimeouts s)) (timers s), fadeTimeouts := []\<rparr>"
  by (simp add: cancelFadeVolume_def fold_clearTimeout)

lemma fold_fadeIter:
  "fold (fadeIter a b) [0..<n] s =
     s\<lparr>timers := timers s @
          map (\<lambda>i. (nextHandle s + i, now s + i * 100, FadeStep (clampVol (a + real i * b)))) [0..<n],
       nextHandle := nextHandle s + n,
       fadeTimeouts := fadeTimeouts s @ map (\<lambda>i. nextHandle s + i) [0..<n]\<rparr>"
  by (induction n) (simp_all add: fadeIter_def setTimeout_def)

lemma fadeVolumeTo_connected:
  "connection s = Some c \<Longrightarrow>
   fadeVolumeTo v s =
     s\<lparr>timers := filter (\<lambda>t. fst t \<notin> set (fadeTimeouts s)) (timers s) @
          map (\<lambda>i. (nextHandle s + i, now s + i * 100,
                     FadeStep (clampVol (vc_volume c + real i * ((v - vc_volume c) / 15))))) [0..<15],
       nextHandle := nextHandle s + 15,
       fadeTimeouts := map (\<lambda>i. nextHandle s + i) [0..<15]\<rparr>"
  by (simp add: fadeVolumeTo_def cancelFadeVolume_eq fold_fadeIter fadeSteps_15 VOL_FADE_TIME_def Let_def)

lemma idle_eq:
  "idle = fresh\<lparr>voiceChannel := Some ''general'', connection := Some (newConnection ''general'')\<rparr>"
  by (simp add: idle_def connect_def fresh_def)


lemma earliest_head:
  "\<forall>u\<in>set ts. fst (snd t) \<le> fst (snd u) \<Longrightarrow> earliest (t # ts) = Some t"
proof (cases "earliest ts")
  case None
  then show ?thesis by simp
next
  case (Some u)
  assume a: "\<forall>u\<in>set ts. fst (snd t) \<le> fst (snd u)"
  from Some have "u \<in> set ts" by (rule earliest_in)
  with a have "\<not> fst (snd u) < fst (snd t)" by auto
  with Some show ?thesis by simp
qed

lemma runTimers_none:
  "timers s = [] \<Longrightarrow> runTimers limit s = s\<lparr>now := max limit (now s)\<rparr>"
  by simp

lemma runTimers_fades:
  "timers s = map (\<lambda>i. (h + i, t0 + i * 100, FadeStep (f i))) [k..<n] \<Longrightarrow>
   connection s = Some c \<Longrightarrow> k < n \<Longrightarrow> t0 + (n - 1) * 100 \<le> limit \<Longrightarrow>
   runTimers limit s =
     s\<lparr>timers := [], now := max limit (now s), connection := Some (c\<lparr>vc_volume := f (n - 1)\<rparr>)\<rparr>"
proof (induction "n - k" arbitrary: k s c)
  case 0
  then show ?case by simp
next
  case (Suc m)
  let ?t = "(h + k, t0 + k * 100, FadeStep (f k))"
  let ?rest = "map (\<lambda>i. (h + i, t0 + i * 100, FadeStep (f i))) [Suc k..<n]"
  have ts: "timers s = ?t # ?rest"
    using Suc.prems(1,3) by (simp add: upt_conv_Cons)
  have e: "earliest (timers s) = Some ?t"
    unfolding ts by (rule earliest_head) auto
  have flt: "filter (\<lambda>u. fst u \<noteq> h + k) (timers s) = ?rest"
    unfolding ts by (auto simp: filter_empty_conv intro!: filter_True)
  have due: "t0 + k * 100 \<le> limit"
  proof -
    have "k \<le> n - 1" using Suc.prems(3) by simp
    then have "k * 100 \<le> (n - 1) * 100" by simp
    with Suc.prems(4) show ?thesis by linarith
  qed
  let ?s' = "s\<lparr>timers := ?rest, now := max (t0 + k * 100) (now s),
                connection := Some (c\<lparr>vc_volume := f k\<rparr>)\<rparr>"
  have step: "runTimers limit s = runTimers limit ?s'"
    using e flt due Suc.prems(2) by (subst runTimers.simps) (simp add: fire_def)
  show ?case
  proof (cases "Suc k < n")
    case True
    have "m = n - Suc k" using Suc.hyps(2) by simp
    from Suc.hyps(1)[OF this, of ?s' "c\<lparr>vc_volume := f k\<rparr>"] True Suc.prems(4)
    have "runTimers limit ?s' =
      ?s'\<lparr>timers := [], now := max limit (now ?s'),
          connection := Some (c\<lparr>vc_volume := f k, vc_volume := f (n - 1)\<rparr>)\<rparr>"
      by simp
    with step due show ?thesis by (simp add: max_def)
  next
    case False
    with Suc.prems(3) have n: "n = Suc k" by simp
    then have "timers ?s' = []" by simp
    from runTimers_none[OF this, of limit] step n due show ?thesis by (simp add: max_def)
  qed
qed

lemma fadeVolumeTo_then_run:
  assumes c: "connection s = Some c"
    and reg: "\<forall>t\<in>set (timers s). fst t \<in> set (fadeTimeouts s)"
    and lim: "now s + 1400 \<le> limit"
  shows "runTimers limit (fadeVolumeTo v s) =
     (fadeVolumeTo v s)\<lparr>timers := [], now := max limit (now s),
        connection := Some (c\<lparr>vc_volume := clampVol (vc_volume c + 14 * ((v - vc_volume c) / 15))\<rparr>)\<rparr>"
proof -
  let ?s = "fadeVolumeTo v s"
  have none: "filter (\<lambda>t. fst t \<notin> set (fadeTimeouts s)) (timers s) = []"
    using reg by (simp add: filter_empty_conv)
  have t: "timers ?s = map (\<lambda>i. (nextHandle s + i, now s + i * 100,
      FadeStep (clampVol (vc_volume c + real i * ((v - vc_volume c) / 15))))) [0..<15]"
    using c none by (simp add: fadeVolumeTo_connected)
  have c': "connection ?s = Some c" and n: "now ?s = now s"
    using c by (simp_all add: fadeVolumeTo_connected)
  from runTimers_fades[OF t c', of limit] lim n show ?thesis by simp
qed

text \<open>The speaking listeners and the timer loop in the cases the properties need.\<close>

lemma speakingStart_idle:
  assumes "speaking s = {}" "stopSpeakingTimeout s = None"
    "\<forall>t\<in>set (timers s). fst t \<in> set (fadeTimeouts s)"
  shows "speakingStart u s =
     s\<lparr>timers := [(nextHandle s, now s + 500, DuckFunc)], nextHandle := Suc (nextHandle s),
       fadeTimeouts := [], startSpeakingTimeout := Some (nextHandle s), speaking := {u}\<rparr>"
  using assms by (simp add: speakingStart_def cancelFadeVolume_eq setTimeout_def filter_empty_conv)

lemma speakingStart_restore_pending:
  assumes "speaking s = {}" "stopSpeakingTimeout s = Some h"
  shows "speakingStart u s =
     s\<lparr>timers := filter (\<lambda>t. fst t \<noteq> h) (timers s), stopSpeakingTimeout := None,
       speaking := {u}\<rparr>"
  using assms by (simp add: speakingStart_def clearTimeout_def)

lemma speakingStop_last:
  assumes "speaking s \<subseteq> {u}"
  shows "speakingStop u s =
     (case startSpeakingTimeout s of
        Some h \<Rightarrow>
          s\<lparr>speaking := {}, timers := filter (\<lambda>t. fst t \<noteq> h) (timers s) @ [(nextHandle s, now s + 1000, RestoreFunc)],
            nextHandle := Suc (nextHandle s), startSpeakingTimeout := None,
            stopSpeakingTimeout := Some (nextHandle s)\<rparr>
      | None \<Rightarrow>
          s\<lparr>speaking := {}, timers := timers s @ [(nextHandle s, now s + 1000, RestoreFunc)],
            nextHandle := Suc (nextHandle s), stopSpeakingTimeout := Some (nextHandle s)\<rparr>)"
proof -
  from assms have "speaking s - {u} = {}" by auto
  then show ?thesis
    by (simp add: speakingStop_def clearTimeout_def setTimeout_def split: option.splits)
qed

lemma runTimers_not_due:
  "timers s = [(h, due, cb)] \<Longrightarrow> limit < due \<Longrightarrow> runTimers limit s = s\<lparr>now := max limit (now s)\<rparr>"
  by (subst runTimers.simps) simp

lemma runTimers_due:
  "timers s = [(h, due, cb)] \<Longrightarrow> due \<le> limit \<Longrightarrow>
   runTimers limit s = runTimers limit (fire cb (s\<lparr>timers := [], now := max due (now s)\<rparr>))"
  by (subst runTimers.simps) simp

lemmas handler_defs =
  play_def after_def rewind_def skip_def seek_def seekReady_def seekBody_def
  synthDone_def synthCallback_def streamReady_def doneBody_def streamEnd_def disconnect_def
  dropAt_def throw_def callDone_def synthesizeSpeech_def vcPlay_def vcStop_def isPlaying_def
  isConnected_def

lemmas example_defs = playingA_def idle_eq fresh_def newConnection_def songA_def songB_def songC_def

subsection \<open>Enqueueing without a connection\<close>

text \<open>
  C5: in a state with no live voice connection and no remembered channel, \<open>play\<close> (the
  spec's \<open>enqueue\<close>) called without a channel throws the error "Not connected and no voice
  channel specified"; the state at the throw is the state of the call, so the queue and
  the current item are unchanged and the item is not appended.
\<close>

theorem play_without_channel_fails:
  "connection s = None \<Longrightarrow> voiceChannel s = None \<Longrightarrow>
   play item None s = Inl (Error ''Not connected and no voice channel specified'', s) \<and>
   queue (after (play item None s)) = queue s \<and>
   current (after (play item None s)) = current s"
  by (simp add: play_def after_def)

theorem play_without_channel_fails_witness:
  "connection fresh = None \<and> voiceChannel fresh = None \<and>
   play songA None fresh = Inl (Error ''Not connected and no voice channel specified'', fresh) \<and>
   queue (after (play songA None fresh)) = [] \<and>
   current (after (play songA None fresh)) = None"
  using play_without_channel_fails [of fresh songA]
  by (simp add: fresh_def after_def)

subsection \<open>Rewinding with nothing current\<close>

text \<open>
  C10: \<open>rewind\<close> does not check that there is a current item.  On a connected connection
  whose current item is empty it does not fail: it puts the empty value (\<open>null\<close>) at the
  front of the queue and advances, and the advance dequeues exactly that value, sequences
  nothing and leaves the state as it was before the call.
\<close>

theorem rewind_empty_current:
  "connection s = Some c \<Longrightarrow> current s = None \<Longrightarrow>
   rewind s = Inr (playNext (s\<lparr>queue := None # queue s\<rparr>)) \<and>
   playNext (s\<lparr>queue := None # queue s\<rparr>) = s"
  by (simp add: rewind_def)

theorem rewind_empty_current_witness:
  "connection (idle\<lparr>queue := [Some songB]\<rparr>) = Some (newConnection ''general'') \<and>
   current (idle\<lparr>queue := [Some songB]\<rparr>) = None \<and>
   rewind (idle\<lparr>queue := [Some songB]\<rparr>) = Inr (idle\<lparr>queue := [Some songB]\<rparr>)"
  using rewind_empty_current [of "idle\<lparr>queue := [Some songB]\<rparr>" "newConnection ''general''"]
  by (simp add: idle_def fresh_def connect_def)

subsection \<open>Seeking\<close>

text \<open>
  C4: \<open>seek\<close> on a connected connection with a current item should leave the queue and
  the current item as they are and never dequeue the next item.  \<open>seek\<close> clears
  \<open>doPlayNext\<close> before it waits for the stream and its body sets the flag again, and
  the command does not wait for \<open>seek\<close> to finish.  With \<open>songA\<close> playing and \<open>songB\<close>
  queued, two \<open>seek\<close> calls are made before either stream is there: the body of the
  first sets the flag, so the stop in the body of the second runs the \<open>end\<close> listener
  with the flag set, and the listener takes \<open>songB\<close> off the queue and requests its
  announcement while \<open>songA\<close> is played again.
\<close>

theorem second_seek_dequeues_next:
  "isConnected (playingA\<lparr>queue := [Some songB]\<rparr>) \<and>
   current (playingA\<lparr>queue := [Some songB]\<rparr>) = Some songA \<and>
   queue (seekReady 0 True (seekReady 0 True
      (seek 20 (seek 10 (playingA\<lparr>queue := [Some songB]\<rparr>))))) = [] \<and>
   synthRequests (seekReady 0 True (seekReady 0 True
      (seek 20 (seek 10 (playingA\<lparr>queue := [Some songB]\<rparr>))))) = [songB] \<and>
   current (seekReady 0 True (seekReady 0 True
      (seek 20 (seek 10 (playingA\<lparr>queue := [Some songB]\<rparr>))))) = Some songA \<and>
   connection (seekReady 0 True (seekReady 0 True
      (seek 20 (seek 10 (playingA\<lparr>queue := [Some songB]\<rparr>))))) =
     Some (vcPlay (ItemStream songA (Some 20)) (newConnection ''general''))"
  by (simp add: handler_defs example_defs Let_def)

subsection \<open>The volume target\<close>

text \<open>
  C6, as the claim states it, fails: \<open>setVolume\<close> stores the level it is given, so a level
  outside [0,2] is stored outside [0,2].
\<close>

theorem setVolume_target_not_clamped:
  "isConnected idle \<and>
   \<not> (0 \<le> volume (setVolume 5 idle) \<and> volume (setVolume 5 idle) \<le> 2)"
  by (simp add: isConnected_def setVolume_def idle_eq fresh_def fadeVolumeTo_connected)

text \<open>
  C6, amended: on a connected connection \<open>setVolume(level)\<close> stores \<open>level\<close> itself as
  the volume target, unclamped; the ducking function sets the transport to 0.2 times the
  stored target; \<open>setVolume\<close> changes nothing when there is no connection.
\<close>

theorem setVolume_stores_level:
  "(connection s = Some c \<longrightarrow> volume (setVolume level s) = level) \<and>
   (connection s = Some c \<longrightarrow>
      connection (fire DuckFunc (setVolume level s)) = Some (c\<lparr>vc_volume := 0.2 * level\<rparr>)) \<and>
   (connection s = Some c \<longrightarrow>
      connection (fire DuckFunc s) = Some (c\<lparr>vc_volume := 0.2 * volume s\<rparr>)) \<and>
   (connection s = None \<longrightarrow> setVolume level s = s)"
  by (simp add: setVolume_def fadeVolumeTo_connected fire_def)

theorem setVolume_stores_level_witness:
  "connection idle = Some (newConnection ''general'') \<and>
   volume (setVolume 5 idle) = 5 \<and>
   connection (fire DuckFunc (setVolume 5 idle)) = Some ((newConnection ''general'')\<lparr>vc_volume := 1\<rparr>) \<and>
   connection fresh = None \<and> setVolume 5 fresh = fresh"
  using setVolume_stores_level [of idle "newConnection ''general''" 5]
    setVolume_stores_level [of fresh "newConnection ''general''" 5]
  by (simp add: idle_eq fresh_def)

subsection \<open>The end of a fade\<close>

text \<open>
  C1: after \<open>setVolume(v)\<close> with \<open>v\<close> in [0,2] on a connected connection, when the fade
  has run all its steps, the transport volume should be \<open>v\<close>.  The loop of \<open>fadeVolumeTo\<close>
  samples the ramp at steps 0 to 14 of 15, so the last sample is one step short of the
  target: from volume 1, \<open>setVolume(2)\<close> ends, with no timer left, at 29/15.
\<close>

theorem fade_stops_short_of_target:
  "connection (advance 1500 (setVolume 2 idle)) =
     Some ((newConnection ''general'')\<lparr>vc_volume := 29 / 15\<rparr>) \<and>
   timers (advance 1500 (setVolume 2 idle)) = [] \<and>
   volume (advance 1500 (setVolume 2 idle)) = 2"
proof -
  have c: "connection idle = Some (newConnection ''general'')"
    and r: "\<forall>t\<in>set (timers (idle\<lparr>volume := 2\<rparr>)). fst t \<in> set (fadeTimeouts (idle\<lparr>volume := 2\<rparr>))"
    and n: "now idle = 0"
    by (simp_all add: idle_eq fresh_def)
  have "runTimers 1500 (fadeVolumeTo 2 (idle\<lparr>volume := 2\<rparr>)) =
     (fadeVolumeTo 2 (idle\<lparr>volume := 2\<rparr>))\<lparr>timers := [], now := max 1500 (now (idle\<lparr>volume := 2\<rparr>)),
        connection := Some ((newConnection ''general'')\<lparr>vc_volume :=
          clampVol (vc_volume (newConnection ''general'') + 14 * ((2 - vc_volume (newConnection ''general'')) / 15))\<rparr>)\<rparr>"
    by (rule fadeVolumeTo_then_run) (use c r n in simp_all)
  then show ?thesis using c n
    by (simp add: advance_def setVolume_def fadeVolumeTo_connected clampVol_def newConnection_def)
qed

subsection \<open>A failed announcement\<close>

text \<open>
  C2: when the synthesis of the announcement fails, the item should still become current
  and be played.  The error branch of the callback calls \<open>this.doneCallback\<close>, which is
  assigned only further down in the success branch: on a connection that has played
  nothing it is still unset, the call throws, and the item, already taken off the queue,
  is neither current nor played nor requested anywhere.
\<close>

theorem synthesis_failure_drops_item:
  "queue (synthDone 0 False (after (play songA None idle))) = [] \<and>
   current (synthDone 0 False (after (play songA None idle))) = None \<and>
   \<not> isPlaying (synthDone 0 False (after (play songA None idle))) \<and>
   synthRequests (synthDone 0 False (after (play songA None idle))) = [] \<and>
   streamRequests (synthDone 0 False (after (play songA None idle))) = [] \<and>
   uncaught (synthDone 0 False (after (play songA None idle))) =
     [TypeError ''this.doneCallback is not a function'']"
  by (simp add: play_def after_def idle_def fresh_def connect_def newConnection_def
      synthesizeSpeech_def synthDone_def synthCallback_def dropAt_def throw_def isPlaying_def)

subsection \<open>Enqueueing twice in a row\<close>

text \<open>
  When the first item has become current before the next calls of \<open>play\<close> are made, the
  first item stays current and the later items are queued in the order of the calls.
\<close>

lemma play_while_current:
  "connection s = Some c \<Longrightarrow> current s = Some x \<Longrightarrow>
   after (play i None s) = s\<lparr>queue := queue s @ [Some i]\<rparr>"
  by (simp add: play_def after_def)

lemma plays_while_current:
  "connection s = Some c \<Longrightarrow> current s = Some x \<Longrightarrow>
   current (fold (\<lambda>i t. after (play i None t)) xs s) = Some x \<and>
   queue (fold (\<lambda>i t. after (play i None t)) xs s) = queue s @ map Some xs"
proof (induction xs arbitrary: s)
  case Nil
  then show ?case by simp
next
  case (Cons i xs)
  let ?s = "s\<lparr>queue := queue s @ [Some i]\<rparr>"
  have "connection ?s = Some c" and "current ?s = Some x"
    using Cons.prems by simp_all
  from Cons.IH[OF this] play_while_current[OF Cons.prems] show ?case by simp
qed

lemma first_item_sequenced:
  assumes "connection s = Some c" "\<not> vc_playing c" "current s = None" "queue s = []"
    "doneCallback s = None" "doPlayNext s" "synthRequests s = []" "streamRequests s = []"
  shows "streamReady 0 True (streamEnd (synthDone 0 True (after (play x None s)))) =
     s\<lparr>current := Some x, connection := Some (vcPlay (ItemStream x None) c)\<rparr>"
  using assms by (simp add: handler_defs Let_def)

lemma enqueue_after_sequencing_keeps_order:
  assumes "connection s = Some c" "\<not> vc_playing c" "current s = None" "queue s = []"
    "doneCallback s = None" "doPlayNext s" "synthRequests s = []" "streamRequests s = []"
  shows "current (fold (\<lambda>i t. after (play i None t)) xs
           (streamReady 0 True (streamEnd (synthDone 0 True (after (play x None s)))))) = Some x \<and>
         queue (fold (\<lambda>i t. after (play i None t)) xs
           (streamReady 0 True (streamEnd (synthDone 0 True (after (play x None s)))))) = map Some xs"
proof -
  let ?s = "s\<lparr>current := Some x, connection := Some (vcPlay (ItemStream x None) c)\<rparr>"
  have "connection ?s = Some (vcPlay (ItemStream x None) c)" and "current ?s = Some x"
    by simp_all
  from plays_while_current[OF this, of xs] assms(4) show ?thesis
    by (simp add: first_item_sequenced[OF assms])
qed

text \<open>
  C7: after a sequence of \<open>play\<close> calls on a connected connection with nothing current
  and an empty queue, and once all sequencing is over, the first item should be current
  and the rest queued in order.  \<open>play\<close> starts sequencing whenever \<open>current\<close> is empty,
  and \<open>current\<close> stays empty until the announcement of the first item has ended.  Two
  calls in a row therefore both dequeue their item: with both announcements synthesised,
  the first announcement ended and the stream fetched, the second item is current, the
  queue is empty, nothing is pending, and the first item was never played.
\<close>

theorem back_to_back_enqueue_loses_first:
  "current (streamReady 0 True (streamEnd (synthDone 0 True (synthDone 0 True
      (after (play songB None (after (play songA None idle)))))))) = Some songB \<and>
   queue (streamReady 0 True (streamEnd (synthDone 0 True (synthDone 0 True
      (after (play songB None (after (play songA None idle)))))))) = [] \<and>
   connection (streamReady 0 True (streamEnd (synthDone 0 True (synthDone 0 True
      (after (play songB None (after (play songA None idle)))))))) =
     Some (vcPlay (ItemStream songB None) (newConnection ''general'')) \<and>
   synthRequests (streamReady 0 True (streamEnd (synthDone 0 True (synthDone 0 True
      (after (play songB None (after (play songA None idle)))))))) = [] \<and>
   streamRequests (streamReady 0 True (streamEnd (synthDone 0 True (synthDone 0 True
      (after (play songB None (after (play songA None idle)))))))) = [] \<and>
   doneCallback (streamReady 0 True (streamEnd (synthDone 0 True (synthDone 0 True
      (after (play songB None (after (play songA None idle)))))))) = None"
  by (simp add: handler_defs example_defs Let_def)

subsection \<open>Stream ends and manual operations\<close>


text \<open>The end of an announcement is handled like the end of an item: with the flag set
  it dequeues the next item before the announced one has started.\<close>

lemma announcement_end_advances_again:
  "queue (streamEnd (synthDone 0 True (streamEnd (playingA\<lparr>queue := [Some songB, Some songC]\<rparr>)))) = [] \<and>
   current (streamEnd (synthDone 0 True (streamEnd (playingA\<lparr>queue := [Some songB, Some songC]\<rparr>)))) = None \<and>
   streamRequests (streamEnd (synthDone 0 True (streamEnd (playingA\<lparr>queue := [Some songB, Some songC]\<rparr>)))) = [songB] \<and>
   synthRequests (streamEnd (synthDone 0 True (streamEnd (playingA\<lparr>queue := [Some songB, Some songC]\<rparr>)))) = [songC]"
  by (simp add: handler_defs example_defs Let_def)




subsection \<open>Disconnecting\<close>

text \<open>
  C9, as the claim states it, fails: with \<open>songA\<close> playing, \<open>songB\<close> queued and the ducking
  debounce timer pending, \<open>disconnect\<close> leaves the timer pending, and the \<open>end\<close>
  notification of its stop clears the current item and dequeues \<open>songB\<close>.
\<close>

theorem disconnect_changes_queue_keeps_timers:
  "isConnected (speakingStart ''u'' (playingA\<lparr>queue := [Some songB]\<rparr>)) \<and>
   current (speakingStart ''u'' (playingA\<lparr>queue := [Some songB]\<rparr>)) = Some songA \<and>
   queue (speakingStart ''u'' (playingA\<lparr>queue := [Some songB]\<rparr>)) = [Some songB] \<and>
   current (disconnect (speakingStart ''u'' (playingA\<lparr>queue := [Some songB]\<rparr>))) = None \<and>
   queue (disconnect (speakingStart ''u'' (playingA\<lparr>queue := [Some songB]\<rparr>))) = [] \<and>
   timers (disconnect (speakingStart ''u'' (playingA\<lparr>queue := [Some songB]\<rparr>))) = [(0, 500, DuckFunc)]"
  by (simp add: handler_defs example_defs Let_def speakingStart_def cancelFadeVolume_eq setTimeout_def)

text \<open>
  C9, amended: in every connected state \<open>disconnect\<close> stops the stream and releases the
  connection; it cancels no timer, so the pending fade and debounce timers stay pending;
  it writes neither the queue nor the current item itself: they change only through the
  \<open>end\<close> listener that its stop runs, and are unchanged when the stop emits no \<open>end\<close>
  because the last stream of the connection has already ended or been stopped.
\<close>

theorem disconnect_effect:
  "connection s = Some c \<Longrightarrow>
   connection (disconnect s) = None \<and>
   (\<not> vc_ended c \<longrightarrow> \<not> isPlaying (stopPlaying s)) \<and>
   timers (disconnect s) = timers s \<and>
   queue (disconnect s) = queue (stopPlaying s) \<and>
   current (disconnect s) = current (stopPlaying s) \<and>
   (vc_ended c \<longrightarrow> queue (disconnect s) = queue s \<and> current (disconnect s) = current s)"
  by (simp add: disconnect_def isPlaying_def Let_def throw_def callDone_def synthesizeSpeech_def vcStop_def
      split: option.splits list.splits)

theorem disconnect_effect_witness:
  "connection (speakingStart ''u'' (playingA\<lparr>queue := [Some songB]\<rparr>)) =
     Some (vcPlay (ItemStream songA None) (newConnection ''general'')) \<and>
   vc_ended (vcPlay (ItemStream songA None) (newConnection ''general'')) = False \<and>
   connection (disconnect (speakingStart ''u'' (playingA\<lparr>queue := [Some songB]\<rparr>))) = None \<and>
   isPlaying (stopPlaying (speakingStart ''u'' (playingA\<lparr>queue := [Some songB]\<rparr>))) = False \<and>
   timers (disconnect (speakingStart ''u'' (playingA\<lparr>queue := [Some songB]\<rparr>))) = [(0, 500, DuckFunc)] \<and>
   connection (speakingStart ''u'' (streamEnd (seek 10 (playingA\<lparr>queue := [Some songB]\<rparr>)))) =
     Some (vcStop (vcPlay (ItemStream songA None) (newConnection ''general''))) \<and>
   vc_ended (vcStop (vcPlay (ItemStream songA None) (newConnection ''general''))) \<and>
   queue (disconnect (speakingStart ''u'' (streamEnd (seek 10 (playingA\<lparr>queue := [Some songB]\<rparr>))))) =
     [Some songB] \<and>
   timers (disconnect (speakingStart ''u'' (streamEnd (seek 10 (playingA\<lparr>queue := [Some songB]\<rparr>))))) =
     [(0, 500, DuckFunc)]"
  using disconnect_effect
      [of "speakingStart ''u'' (playingA\<lparr>queue := [Some songB]\<rparr>)"
          "vcPlay (ItemStream songA None) (newConnection ''general'')"]
    disconnect_effect
      [of "speakingStart ''u'' (streamEnd (seek 10 (playingA\<lparr>queue := [Some songB]\<rparr>)))"
          "vcStop (vcPlay (ItemStream songA None) (newConnection ''general''))"]
  by (simp add: speakingStart_def cancelFadeVolume_eq setTimeout_def handler_defs example_defs Let_def)

text \<open>On a connection that never played, the stop of \<open>disconnect\<close> emits \<open>end\<close> too, and
  the listener dequeues the head of the queue.\<close>

lemma disconnect_before_first_stream:
  "queue (disconnect (idle\<lparr>queue := [Some songB]\<rparr>)) = [] \<and>
   synthRequests (disconnect (idle\<lparr>queue := [Some songB]\<rparr>)) = [songB]"
  by (simp add: handler_defs example_defs Let_def)

subsection \<open>Ducking on activity\<close>

text \<open>
  C8, as the claim states it, fails: an identity speaks for 100 ms, is silent for 100 ms
  and then speaks without a stop.  Its second start finds the restore timer pending,
  cancels it and arms no ducking timer, so after 600 ms of continuous activity the
  transport volume is still the full volume and no timer is pending.
\<close>

theorem activity_after_blip_never_ducks:
  "speaking (advance 600 (speakingStart ''u'' (advance 100 (speakingStop ''u''
      (advance 100 (speakingStart ''u'' idle)))))) = {''u''} \<and>
   connection (advance 600 (speakingStart ''u'' (advance 100 (speakingStop ''u''
      (advance 100 (speakingStart ''u'' idle)))))) = Some (newConnection ''general'') \<and>
   vc_volume (newConnection ''general'') \<noteq> 0.2 * volume idle \<and>
   timers (advance 600 (speakingStart ''u'' (advance 100 (speakingStop ''u''
      (advance 100 (speakingStart ''u'' idle)))))) = []"
  by (simp add: speakingStart_def speakingStop_def advance_def cancelFadeVolume_eq setTimeout_def
      clearTimeout_def idle_eq fresh_def newConnection_def)

text \<open>
  C8, amended: start from a connected state in which nobody is active, no restore timer
  is pending and the only pending timers are those of the current fade.  An identity that
  becomes active and stays active has the volume set to 0.2 times the target once 500 ms
  have passed, and not before.  If it stops within 500 ms, the ducking timer is cancelled:
  the volume is untouched and only the restore timer is pending.  After a stop that
  empties the set of a ducked connection, the restore timer is due 1000 ms later; until
  then the volume stays ducked, and 2400 ms after the stop the fade started by the timer
  has moved the volume toward the target, to the last sample of the fade.  An identity
  that becomes active within the 1000 ms cancels the restore timer, and the volume stays
  ducked.
\<close>

theorem activity_ducking_timed:
  assumes c: "connection s = Some c" and sp: "speaking s = {}"
    and st: "stopSpeakingTimeout s = None"
    and reg: "\<forall>t\<in>set (timers s). fst t \<in> set (fadeTimeouts s)"
  shows "(d < 500 \<longrightarrow> connection (advance d (speakingStart u s)) = Some c) \<and>
    (500 \<le> d \<longrightarrow> connection (advance d (speakingStart u s)) = Some (c\<lparr>vc_volume := 0.2 * volume s\<rparr>)) \<and>
    (d < 500 \<longrightarrow>
       timers (speakingStop u (advance d (speakingStart u s))) =
         [(Suc (nextHandle s), now s + d + 1000, RestoreFunc)] \<and>
       connection (speakingStop u (advance d (speakingStart u s))) = Some c) \<and>
    (500 \<le> d \<and> e < 1000 \<longrightarrow>
       connection (advance e (speakingStop u (advance d (speakingStart u s)))) =
         Some (c\<lparr>vc_volume := 0.2 * volume s\<rparr>) \<and>
       timers (advance e (speakingStop u (advance d (speakingStart u s)))) =
         [(Suc (nextHandle s), now s + d + 1000, RestoreFunc)]) \<and>
    (500 \<le> d \<and> 2400 \<le> e \<longrightarrow>
       connection (advance e (speakingStop u (advance d (speakingStart u s)))) =
         Some (c\<lparr>vc_volume := clampVol (0.2 * volume s + 14 * ((volume s - 0.2 * volume s) / 15))\<rparr>)) \<and>
    (500 \<le> d \<and> e < 1000 \<longrightarrow>
       timers (speakingStart w (advance e (speakingStop u (advance d (speakingStart u s))))) = [] \<and>
       connection (advance e' (speakingStart w (advance e (speakingStop u (advance d (speakingStart u s)))))) =
         Some (c\<lparr>vc_volume := 0.2 * volume s\<rparr>))"
proof -
  let ?h = "nextHandle s" and ?n = "now s" and ?V = "volume s"
  let ?duck = "c\<lparr>vc_volume := 0.2 * ?V\<rparr>"
  define s1 where "s1 = s\<lparr>timers := [(?h, ?n + 500, DuckFunc)], nextHandle := Suc ?h,
       fadeTimeouts := [], startSpeakingTimeout := Some ?h, speaking := {u}\<rparr>"
  have start: "speakingStart u s = s1"
    unfolding s1_def by (rule speakingStart_idle[OF sp st reg])
  have t1: "timers s1 = [(?h, ?n + 500, DuckFunc)]" and n1: "now s1 = ?n"
    by (simp_all add: s1_def)
  \<comment> \<open>activity shorter than the debounce\<close>
  have early: "advance d s1 = s1\<lparr>now := ?n + d\<rparr>" if "d < 500"
    using that runTimers_not_due[OF t1, of "?n + d"] by (simp add: advance_def n1)
  \<comment> \<open>activity that outlasts the debounce\<close>
  define s2 where "s2 = s1\<lparr>timers := [], now := ?n + d, connection := Some ?duck,
       startSpeakingTimeout := None\<rparr>"
  have late: "advance d s1 = s2" if "500 \<le> d"
  proof -
    have "runTimers (?n + d) s1 =
        runTimers (?n + d) (fire DuckFunc (s1\<lparr>timers := [], now := max (?n + 500) (now s1)\<rparr>))"
      using that by (intro runTimers_due[OF t1]) simp
    also have "fire DuckFunc (s1\<lparr>timers := [], now := max (?n + 500) (now s1)\<rparr>) =
        s1\<lparr>timers := [], now := ?n + 500, connection := Some ?duck, startSpeakingTimeout := None\<rparr>"
      using c by (simp add: fire_def s1_def)
    also have "runTimers (?n + d) \<dots> = s2"
      using that by (simp add: s2_def max_def)
    finally show ?thesis by (simp add: advance_def n1)
  qed
  \<comment> \<open>the stop before the debounce has run out\<close>
  have stop_early: "speakingStop u (s1\<lparr>now := ?n + d\<rparr>) =
      s1\<lparr>now := ?n + d, speaking := {}, timers := [(Suc ?h, ?n + d + 1000, RestoreFunc)],
         nextHandle := Suc (Suc ?h), startSpeakingTimeout := None,
         stopSpeakingTimeout := Some (Suc ?h)\<rparr>"
    by (subst speakingStop_last) (simp_all add: s1_def)
  \<comment> \<open>the stop after the duck\<close>
  define s3 where "s3 = s2\<lparr>speaking := {}, timers := [(Suc ?h, ?n + d + 1000, RestoreFunc)],
       nextHandle := Suc (Suc ?h), stopSpeakingTimeout := Some (Suc ?h)\<rparr>"
  have stop_late: "speakingStop u s2 = s3"
    by (subst speakingStop_last) (simp_all add: s1_def s2_def s3_def)
  have t3: "timers s3 = [(Suc ?h, ?n + d + 1000, RestoreFunc)]" and n3: "now s3 = ?n + d"
    and c3: "connection s3 = Some ?duck"
    by (simp_all add: s3_def s2_def s1_def)
  have silence: "advance e s3 = s3\<lparr>now := ?n + d + e\<rparr>" if "e < 1000"
    using that runTimers_not_due[OF t3, of "?n + d + e"] by (simp add: advance_def n3)
  have restored: "connection (advance e s3) =
      Some (c\<lparr>vc_volume := clampVol (0.2 * ?V + 14 * ((?V - 0.2 * ?V) / 15))\<rparr>)" if "2400 \<le> e"
  proof -
    let ?s = "s3\<lparr>timers := [], now := ?n + d + 1000, stopSpeakingTimeout := None\<rparr>"
    have "runTimers (?n + d + e) s3 =
        runTimers (?n + d + e) (fire RestoreFunc (s3\<lparr>timers := [], now := max (?n + d + 1000) (now s3)\<rparr>))"
      using that by (intro runTimers_due[OF t3]) simp
    also have "fire RestoreFunc (s3\<lparr>timers := [], now := max (?n + d + 1000) (now s3)\<rparr>) =
        fadeVolumeTo ?V ?s"
      by (simp add: fire_def n3 s3_def s2_def s1_def)
    also have "runTimers (?n + d + e) (fadeVolumeTo ?V ?s) =
        (fadeVolumeTo ?V ?s)\<lparr>timers := [], now := max (?n + d + e) (now ?s),
           connection := Some (?duck\<lparr>vc_volume :=
              clampVol (vc_volume ?duck + 14 * ((?V - vc_volume ?duck) / 15))\<rparr>)\<rparr>"
      using that by (intro fadeVolumeTo_then_run) (simp_all add: c3)
    finally show ?thesis by (simp add: advance_def n3)
  qed
  \<comment> \<open>new activity inside the silence window\<close>
  define s4 where "s4 = s3\<lparr>now := ?n + d + e, timers := [], stopSpeakingTimeout := None, speaking := {w}\<rparr>"
  have again: "speakingStart w (s3\<lparr>now := ?n + d + e\<rparr>) = s4"
    by (subst speakingStart_restore_pending[where h = "Suc ?h"]) (simp_all add: s3_def s4_def)
  have t4: "timers s4 = []" and c4: "connection s4 = Some ?duck"
    by (simp_all add: s4_def c3)
  have stays: "connection (advance e' s4) = Some ?duck"
    using runTimers_none[OF t4] c4 by (simp add: advance_def)
  have c2: "connection s2 = Some ?duck"
    by (simp add: s2_def)
  show ?thesis
    using early late stop_early stop_late silence restored again stays t4 c c2 c3 t3
    by (simp add: start s1_def)
qed

theorem activity_ducking_timed_witness:
  "connection (setVolume 2 idle) = Some (newConnection ''general'') \<and>
   speaking (setVolume 2 idle) = {} \<and> stopSpeakingTimeout (setVolume 2 idle) = None \<and>
   length (timers (setVolume 2 idle)) = 15 \<and>
   fadeTimeouts (setVolume 2 idle) = map fst (timers (setVolume 2 idle)) \<and>
   connection (advance 100 (speakingStart ''u'' (setVolume 2 idle))) = Some (newConnection ''general'') \<and>
   connection (advance 600 (speakingStart ''u'' (setVolume 2 idle))) =
     Some ((newConnection ''general'')\<lparr>vc_volume := 0.4\<rparr>) \<and>
   timers (speakingStop ''u'' (advance 100 (speakingStart ''u'' (setVolume 2 idle)))) =
     [(16, 1100, RestoreFunc)] \<and>
   connection (advance 999 (speakingStop ''u'' (advance 600 (speakingStart ''u'' (setVolume 2 idle))))) =
     Some ((newConnection ''general'')\<lparr>vc_volume := 0.4\<rparr>) \<and>
   connection (advance 2400 (speakingStop ''u'' (advance 600 (speakingStart ''u'' (setVolume 2 idle))))) =
     Some ((newConnection ''general'')\<lparr>vc_volume := 142 / 75\<rparr>) \<and>
   timers (speakingStart ''w'' (advance 999 (speakingStop ''u'' (advance 600
     (speakingStart ''u'' (setVolume 2 idle)))))) = []"
proof -
  let ?s = "setVolume 2 idle"
  have c: "connection ?s = Some (newConnection ''general'')"
    and sp: "speaking ?s = {}" and st: "stopSpeakingTimeout ?s = None"
    and v: "volume ?s = 2" and h: "nextHandle ?s = 15" and n: "now ?s = 0"
    by (simp_all add: setVolume_def idle_eq fresh_def fadeVolumeTo_connected)
  have ne: "length (timers ?s) = 15" "fadeTimeouts ?s = map fst (timers ?s)"
    by (simp_all add: setVolume_def idle_eq fresh_def fadeVolumeTo_connected comp_def)
  have reg: "\<forall>t\<in>set (timers ?s). fst t \<in> set (fadeTimeouts ?s)"
    by (simp add: setVolume_def idle_eq fresh_def fadeVolumeTo_connected)
  from activity_ducking_timed [OF c sp st reg, of 100 "''u''" 999 "''w''" 0]
    activity_ducking_timed [OF c sp st reg, of 600 "''u''" 999 "''w''" 0]
    activity_ducking_timed [OF c sp st reg, of 600 "''u''" 2400 "''w''" 0]
  show ?thesis using c sp st ne
    by (simp add: v h n clampVol_def)
qed

end
